theory Spec2Isabelle
  imports Main "HOL-Library.Sublist"
begin

section \<open>The gulp build file of the driver: gulpfile.babel.js\<close>

subsection \<open>JavaScript string operations used by the build file\<close>

text \<open>
  A JavaScript string is a finite sequence of code units; it is modelled as a
  \<^typ>\<open>string\<close>. The build file uses three string methods.

  \<^verbatim>\<open>s.slice(-n)\<close> with \<open>n > 0\<close> starts at \<open>max (length s - n) 0\<close> and runs to the end
  of the string; the subtraction on \<^typ>\<open>nat\<close> stops at zero exactly as the
  clamping of JavaScript does.
\<close>

definition slice_from_end :: "nat \<Rightarrow> string \<Rightarrow> string" where
  "slice_from_end n s = drop (length s - n) s"

text \<open>
  \<^verbatim>\<open>s.indexOf(pat)\<close>: the position of the first occurrence of \<open>pat\<close> in \<open>s\<close>,
  \<open>None\<close> for JavaScript's \<open>-1\<close>.
\<close>

fun indexOf :: "string \<Rightarrow> string \<Rightarrow> nat option" where
  "indexOf pat [] = (if pat = [] then Some 0 else None)"
| "indexOf pat (c # cs) =
     (if prefix pat (c # cs) then Some 0 else map_option Suc (indexOf pat cs))"

text \<open>
  \<^verbatim>\<open>s.replace(pat, rep)\<close> with a string pattern replaces the first occurrence
  of \<open>pat\<close> only, and returns \<open>s\<close> itself when there is none. (The replacement
  strings of the build file contain no \<open>$\<close>, so no replacement pattern is expanded.)
\<close>

definition js_replace :: "string \<Rightarrow> string \<Rightarrow> string \<Rightarrow> string" where
  "js_replace pat rep s =
     (case indexOf pat s of
        None \<Rightarrow> s
      | Some i \<Rightarrow> take i s @ rep @ drop (i + length pat) s)"

subsection \<open>The require transform of the browser bundles\<close>

text \<open>
  \<^verbatim>\<open>
  function browserifyTransformNodeToBrowserRequire () {
    var nodeRequire = '/node'
    var browserRequire = '/browser'
    return transformTools.makeRequireTransform(
      'bodeToBrowserRequireTransform', { evaluateArguments: true },
      function (args, opts, cb) {
        var requireArg = args[0]
        var endsWithNodeRequire =
          requireArg.slice(-nodeRequire.length) === nodeRequire
        if (endsWithNodeRequire) {
          var newRequireArg = requireArg.replace(nodeRequire, browserRequire)
          return cb(null, "require('" + newRequireArg + "')")
        } else {
          return cb()
        }
      })
  }
  \<close>
\<close>

definition nodeRequire :: string where
  "nodeRequire = ''/node''"

definition browserRequire :: string where
  "browserRequire = ''/browser''"

definition endsWithNodeRequire :: "string \<Rightarrow> bool" where
  "endsWithNodeRequire requireArg =
     (slice_from_end (length nodeRequire) requireArg = nodeRequire)"

definition newRequireArg :: "string \<Rightarrow> string" where
  "newRequireArg requireArg = js_replace nodeRequire browserRequire requireArg"

text \<open>
  The callback of the transform: \<open>Some text\<close> stands for \<^verbatim>\<open>cb(null, text)\<close>, the
  source text that replaces the require call, and \<open>None\<close> for \<^verbatim>\<open>cb()\<close>, which
  leaves the call as it is.
\<close>

definition requireTransform :: "string \<Rightarrow> string option" where
  "requireTransform requireArg =
     (if endsWithNodeRequire requireArg
      then Some (''require('' @ [CHR 0x27] @ newRequireArg requireArg @ [CHR 0x27] @ '')'')
      else None)"

text \<open>
  The module reference of the require call after the transform has run on a call
  whose reference was \<open>requireArg\<close>.
\<close>

definition transformedRequireArg :: "string \<Rightarrow> string" where
  "transformedRequireArg requireArg =
     (if endsWithNodeRequire requireArg then newRequireArg requireArg else requireArg)"

subsection \<open>The task graph\<close>

text \<open>
  Every composite task of the build file is built with \<^verbatim>\<open>gulp.series\<close>, which runs
  its members one after the other and stops at the first one that does not
  complete. A task is therefore either a task function or a series of tasks.
  The task functions are named after what they run:

  \<^item> \<open>Bundle_browser\<close>, \<open>Bundle_browser_test\<close>: the functions of \<^verbatim>\<open>build-browser\<close>
    and \<^verbatim>\<open>build-browser-test\<close>;
  \<^item> \<open>Babel_nodejs\<close>: the function of \<^verbatim>\<open>nodejs\<close>;
  \<^item> \<open>Npm_install_sandbox\<close>: the function that \<^verbatim>\<open>install-driver-into-sandbox\<close>
    runs after \<^verbatim>\<open>nodejs\<close>;
  \<^item> \<open>Jasmine_nodejs\<close>: the function that \<^verbatim>\<open>test-nodejs\<close> runs after
    \<^verbatim>\<open>install-driver-into-sandbox\<close>;
  \<^item> \<open>Karma browser\<close>: \<^verbatim>\<open>runKarma(browser, cb)\<close>;
  \<^item> \<open>Typescript_check\<close>: the function of \<^verbatim>\<open>run-ts-declaration-tests\<close>.
\<close>

datatype action =
    Bundle_browser
  | Bundle_browser_test
  | Babel_nodejs
  | Npm_install_sandbox
  | Jasmine_nodejs
  | Karma string
  | Typescript_check

datatype task = Fn action | Series "task list"

text \<open>
  How a task function ends: it signals completion, it reports an error to gulp
  (its stream emits \<^verbatim>\<open>error\<close>, or it throws), or it ends the whole process with
  \<^verbatim>\<open>process.exit(code)\<close>.
\<close>

datatype outcome = Completed | Errored | Exited nat

text \<open>
  The tools that the task functions call are not part of the build file. What
  they do in one run is a parameter of the model:

  \<^item> \<open>babel_error\<close>: the stream of gulp-babel emits \<^verbatim>\<open>error\<close>;
  \<^item> \<open>bundle_test_error\<close>, \<open>bundle_error\<close>: the bundle that browserify makes in
    \<^verbatim>\<open>build-browser-test\<close>, in \<^verbatim>\<open>build-browser\<close>, emits \<^verbatim>\<open>error\<close> (a reference
    cannot be resolved, a file does not parse);
  \<^item> \<open>bundle_test_rejects\<close>, \<open>bundle_rejects\<close>: the async function of
    \<^verbatim>\<open>build-browser-test\<close>, of \<^verbatim>\<open>build-browser\<close>, throws;
  \<^item> \<open>install_exit\<close>: the exit code of the command that gulp-install runs in
    the sandbox; gulp-install ends its stream with an error when it is not zero;
  \<^item> \<open>jasmine_error\<close>: the stream of gulp-jasmine emits \<^verbatim>\<open>error\<close> (a spec failed);
  \<^item> \<open>karma_exit browser\<close>: the exit code that the karma server started with
    \<^verbatim>\<open>karma-<browser>.conf.js\<close> hands to its callback (zero when every test passed);
  \<^item> \<open>ts_error\<close>: the stream of gulp-typescript emits \<^verbatim>\<open>error\<close> (a diagnostic).
\<close>

record tools =
  babel_error :: bool
  bundle_test_error :: bool
  bundle_error :: bool
  bundle_test_rejects :: bool
  bundle_rejects :: bool
  install_exit :: nat
  jasmine_error :: bool
  karma_exit :: "string \<Rightarrow> nat"
  ts_error :: bool

text \<open>
  \<^verbatim>\<open>
  function runKarma (browser, cb) {
    new karma.Server({ configFile: ... `/test/browser/karma-${browser}.conf.js` },
      function (exitCode) {
        exitCode ? process.exit(exitCode) : cb()
      }).start()
  }

  gulp.task('run-ts-declaration-tests', function () {
    var failed = false
    return gulp.src(...).pipe(ts({...}))
      .on('error', function () { failed = true })
      .on('finish', function () {
        if (failed) { console.log(...); process.exit(1) }
      })
      .pipe(gulp.dest('build/test/types'))
  })
  \<close>

  The two bundling tasks are async functions. Each puts the handler
  \<^verbatim>\<open>.on('error', log.error)\<close> on its bundle and hands gulp a promise that settles
  without waiting for the bundle:
  \<^verbatim>\<open>
  gulp.task('build-browser', async function () {
    const appBundler = browserify({...}).transform(...).transform(...).bundle()
    await appBundler.on('error', log.error).pipe(source('neo4j-web.js')).pipe(gulp.dest(...))
    await appBundler.on('error', log.error).pipe(source('neo4j-web.min.js'))
      .pipe(buffer()).pipe(uglify()).pipe(gulp.dest(...))
  })
  \<close>
  An \<^verbatim>\<open>error\<close> event of the bundle is therefore written to the console and has no
  part in how the task function ends.
\<close>

fun run_action :: "tools \<Rightarrow> action \<Rightarrow> outcome" where
  "run_action e Bundle_browser = (if bundle_rejects e then Errored else Completed)"
| "run_action e Bundle_browser_test = (if bundle_test_rejects e then Errored else Completed)"
| "run_action e Babel_nodejs = (if babel_error e then Errored else Completed)"
| "run_action e Npm_install_sandbox = (if install_exit e \<noteq> 0 then Errored else Completed)"
| "run_action e Jasmine_nodejs = (if jasmine_error e then Errored else Completed)"
| "run_action e (Karma browser) =
     (let exitCode = karma_exit e browser
      in if exitCode \<noteq> 0 then Exited exitCode else Completed)"
| "run_action e Typescript_check = (if ts_error e then Exited 1 else Completed)"


text \<open>
  Running a task gives the log of the run, one entry for each task function
  that was started, with how it ended, in the order in which they ran, and the
  outcome of the task. A series starts its next member only when the one before
  has completed.
\<close>

type_synonym run_log = "(action \<times> outcome) list"

fun exec :: "tools \<Rightarrow> task \<Rightarrow> run_log \<times> outcome"
  and exec_series :: "tools \<Rightarrow> task list \<Rightarrow> run_log \<times> outcome" where
  "exec e (Fn a) = ([(a, run_action e a)], run_action e a)"
| "exec e (Series ts) = exec_series e ts"
| "exec_series e [] = ([], Completed)"
| "exec_series e (t # ts) =
     (let (l, r) = exec e t
      in if r = Completed
         then (let (l', r') = exec_series e ts in (l @ l', r'))
         else (l, r))"

text \<open>
  The exit code of the gulp process: zero when the task completed, one when gulp
  reports a task error, and the code given to \<^verbatim>\<open>process.exit\<close> otherwise.
\<close>

fun exit_code :: "outcome \<Rightarrow> nat" where
  "exit_code Completed = 0"
| "exit_code Errored = 1"
| "exit_code (Exited code) = code"

definition failed :: "tools \<Rightarrow> task \<Rightarrow> bool" where
  "failed e t = (snd (exec e t) \<noteq> Completed)"

text \<open>The browser engines that a run started, in order.\<close>

fun engines :: "run_log \<Rightarrow> string list" where
  "engines [] = []"
| "engines ((Karma browser, r) # l) = browser # engines l"
| "engines (x # l) = engines l"

text \<open>
  The tasks of the build and test chains, in the order in which the build file
  declares them. A name given to \<^verbatim>\<open>gulp.series\<close> stands for the task declared
  under that name. (The tasks \<^verbatim>\<open>watch\<close>, \<^verbatim>\<open>watch-n-test\<close>, \<^verbatim>\<open>start-neo4j\<close>,
  \<^verbatim>\<open>stop-neo4j\<close> and \<^verbatim>\<open>run-stress-tests\<close> belong to no chain treated here, and
  \<^verbatim>\<open>set\<close> is modelled below with the files it writes.)
\<close>

definition build_browser :: task where
  "build_browser = Fn Bundle_browser"

definition build_browser_test :: task where
  "build_browser_test = Fn Bundle_browser_test"

definition nodejs :: task where
  "nodejs = Fn Babel_nodejs"

definition install_driver_into_sandbox :: task where
  "install_driver_into_sandbox = Series [nodejs, Fn Npm_install_sandbox]"

definition test_nodejs :: task where
  "test_nodejs = Series [install_driver_into_sandbox, Fn Jasmine_nodejs]"

definition run_browser_test_chrome :: task where
  "run_browser_test_chrome = Fn (Karma ''chrome'')"

definition run_browser_test_firefox :: task where
  "run_browser_test_firefox = Fn (Karma ''firefox'')"

definition run_browser_test_edge :: task where
  "run_browser_test_edge = Fn (Karma ''edge'')"

definition run_browser_test_ie :: task where
  "run_browser_test_ie = Fn (Karma ''ie'')"

definition run_browser_test :: task where
  "run_browser_test = Series [run_browser_test_firefox]"

definition run_ts_declaration_tests :: task where
  "run_ts_declaration_tests = Fn Typescript_check"

definition browser :: task where
  "browser = Series [build_browser_test, build_browser]"

definition all_task :: task where
  "all_task = Series [nodejs, browser]"

definition test_browser :: task where
  "test_browser = Series [all_task, run_browser_test]"

definition test :: task where
  "test = Series [run_ts_declaration_tests, test_nodejs, test_browser]"

definition default_task :: task where
  "default_task = Series [test]"

definition gulp_task :: "string \<Rightarrow> task option" where
  "gulp_task = map_of
     [(''build-browser'', build_browser),
      (''build-browser-test'', build_browser_test),
      (''nodejs'', nodejs),
      (''install-driver-into-sandbox'', install_driver_into_sandbox),
      (''test-nodejs'', test_nodejs),
      (''run-browser-test-chrome'', run_browser_test_chrome),
      (''run-browser-test-firefox'', run_browser_test_firefox),
      (''run-browser-test-edge'', run_browser_test_edge),
      (''run-browser-test-ie'', run_browser_test_ie),
      (''run-browser-test'', run_browser_test),
      (''run-ts-declaration-tests'', run_ts_declaration_tests),
      (''browser'', browser),
      (''all'', all_task),
      (''test-browser'', test_browser),
      (''test'', test),
      (''default'', default_task)]"

subsection \<open>The task that sets the version\<close>

text \<open>
  \<^verbatim>\<open>
  gulp.task('set', function () {
    var version = minimist(process.argv.slice(2), { string: 'version' }).version
    if (!semver.valid(version)) {
      throw new Error(`Invalid version "${version}"`)
    }
    var versionFile = path.join('src', 'version.js')
    return gulp
      .src([versionFile], { base: './' })
      .pipe(replace('0.0.0-dev', version))
      .pipe(gulp.dest('./'))
  })
  \<close>

  The files of the working directory are a map from paths to contents. Whether
  a string is a semantic version is decided by the semver package, which is not
  part of the build file: \<open>semver_valid\<close> is a parameter of the task.
\<close>

type_synonym tree = "string \<rightharpoonup> string"

datatype js_error = Error string | File_not_found string

text \<open>\<^verbatim>\<open>path.join\<close> of two plain segments, with the separator of POSIX.\<close>

definition path_join :: "string \<Rightarrow> string \<Rightarrow> string" where
  "path_join a b = a @ ''/'' @ b"

text \<open>
  \<^verbatim>\<open>s.split(sep)\<close> with a string separator: the pieces of \<open>s\<close> between the
  occurrences of \<open>sep\<close>, found from the left and not overlapping.
\<close>

function js_split :: "string \<Rightarrow> string \<Rightarrow> string list" where
  "js_split sep [] = [[]]"
| "js_split sep (c # cs) =
     (if sep \<noteq> [] \<and> prefix sep (c # cs)
      then [] # js_split sep (drop (length sep) (c # cs))
      else (let chunks = js_split sep cs in (c # hd chunks) # tl chunks))"
  by pat_completeness auto
termination
  by (relation "measure (\<lambda>(sep, s). length s)") (auto simp: neq_Nil_conv)

text \<open>\<^verbatim>\<open>chunks.join(rep)\<close>.\<close>

fun js_join :: "string \<Rightarrow> string list \<Rightarrow> string" where
  "js_join rep [] = []"
| "js_join rep [x] = x"
| "js_join rep (x # y # ys) = x @ rep @ js_join rep (y # ys)"

text \<open>
  gulp-replace with a string to search for computes, on the contents of each
  file of the stream, \<^verbatim>\<open>String(contents).split(search).join(replacement)\<close>: it
  replaces one occurrence for each gap between two chunks.
\<close>

definition gulp_replace :: "string \<Rightarrow> string \<Rightarrow> string \<Rightarrow> string" where
  "gulp_replace search replacement contents = js_join replacement (js_split search contents)"

definition replaced_count :: "string \<Rightarrow> string \<Rightarrow> nat" where
  "replaced_count search contents = length (js_split search contents) - 1"

definition placeholder :: string where
  "placeholder = ''0.0.0-dev''"

definition versionFile :: string where
  "versionFile = path_join ''src'' ''version.js''"

text \<open>
  The task returns how it ended and the files as it leaves them. \<^verbatim>\<open>gulp.src\<close>
  on the one path of a file that does not exist ends the stream with an error.
\<close>

definition set_task :: "(string \<Rightarrow> bool) \<Rightarrow> string \<Rightarrow> tree \<Rightarrow> (js_error + unit) \<times> tree" where
  "set_task semver_valid version files =
     (if \<not> semver_valid version
      then (Inl (Error (''Invalid version '' @ [CHR 0x22] @ version @ [CHR 0x22])), files)
      else (case files versionFile of
              None \<Rightarrow> (Inl (File_not_found versionFile), files)
            | Some contents \<Rightarrow>
                (Inr (), files(versionFile \<mapsto> gulp_replace placeholder version contents))))"

definition task_outcome :: "js_error + unit \<Rightarrow> outcome" where
  "task_outcome r = (case r of Inl err \<Rightarrow> Errored | Inr u \<Rightarrow> Completed)"

subsection \<open>Sample runs\<close>

text \<open>Tools that all succeed, and the same with one of them failing.\<close>

definition tools_pass :: tools where
  "tools_pass = \<lparr>babel_error = False, bundle_test_error = False, bundle_error = False,
     bundle_test_rejects = False, bundle_rejects = False,
     install_exit = 0, jasmine_error = False, karma_exit = (\<lambda>browser. 0), ts_error = False\<rparr>"

definition tools_install_fails :: tools where
  "tools_install_fails = tools_pass\<lparr>install_exit := 1\<rparr>"

definition tools_firefox_fails :: tools where
  "tools_firefox_fails =
     tools_pass\<lparr>karma_exit := (\<lambda>browser. if browser = ''firefox'' then 1 else 0)\<rparr>"

definition tools_ts_fails :: tools where
  "tools_ts_fails = tools_pass\<lparr>ts_error := True\<rparr>"

definition tools_jasmine_fails :: tools where
  "tools_jasmine_fails = tools_pass\<lparr>jasmine_error := True\<rparr>"

definition tools_bundle_fails :: tools where
  "tools_bundle_fails = tools_pass\<lparr>bundle_error := True\<rparr>"

text \<open>A stand-in for semver that accepts two version strings.\<close>

definition semver_sample :: "string \<Rightarrow> bool" where
  "semver_sample version = (version = ''1.2.3'' \<or> version = ''1.2.4'')"

text \<open>The version file as the repository holds it, and after a first stamping.\<close>

definition tree_fresh :: tree where
  "tree_fresh = [''package.json'' \<mapsto> ''{}'', versionFile \<mapsto> ''export default 0.0.0-dev'']"

definition tree_stamped :: tree where
  "tree_stamped = [''package.json'' \<mapsto> ''{}'', versionFile \<mapsto> ''export default 1.2.3'']"

section \<open>Definitions to unfold together\<close>

lemmas task_defs =
  build_browser_def build_browser_test_def nodejs_def install_driver_into_sandbox_def
  test_nodejs_def run_browser_test_firefox_def run_browser_test_def
  run_ts_declaration_tests_def browser_def all_task_def test_browser_def test_def
  default_task_def

lemmas transform_defs =
  transformedRequireArg_def requireTransform_def endsWithNodeRequire_def newRequireArg_def
  js_replace_def slice_from_end_def nodeRequire_def browserRequire_def

lemmas tools_defs =
  tools_pass_def tools_install_fails_def tools_firefox_fails_def tools_ts_fails_def
  tools_jasmine_fails_def tools_bundle_fails_def

section \<open>Properties of the string operations\<close>

lemma slice_from_end_suffix:
  "(slice_from_end (length pat) s = pat) = suffix pat s"
proof
  assume h: "slice_from_end (length pat) s = pat"
  have "s = take (length s - length pat) s @ drop (length s - length pat) s"
    by simp
  with h show "suffix pat s"
    unfolding slice_from_end_def suffix_def by metis
next
  assume "suffix pat s"
  then obtain zs where "s = zs @ pat" by (auto simp: suffix_def)
  then show "slice_from_end (length pat) s = pat"
    by (simp add: slice_from_end_def)
qed

lemma endsWithNodeRequire_suffix:
  "endsWithNodeRequire s = suffix ''/node'' s"
  unfolding endsWithNodeRequire_def nodeRequire_def
  by (rule slice_from_end_suffix)

lemma requireTransform_reference:
  "requireTransform s =
     (if endsWithNodeRequire s
      then Some (''require('' @ [CHR 0x27] @ transformedRequireArg s @ [CHR 0x27] @ '')'')
      else None)"
  by (simp add: requireTransform_def transformedRequireArg_def)

lemma transformedRequireArg_unchanged:
  "\<not> suffix ''/node'' s \<Longrightarrow> transformedRequireArg s = s \<and> requireTransform s = None"
  by (simp add: transformedRequireArg_def requireTransform_def endsWithNodeRequire_suffix)

text \<open>
  What \<open>indexOf\<close> finds is an occurrence; \<open>js_split\<close> cuts at the first
  occurrence and goes on behind it, so that gulp-replace replaces every occurrence,
  from the left, and leaves a text without an occurrence as it is.
\<close>

lemma indexOf_Some_decomp:
  "indexOf pat s = Some i \<Longrightarrow> s = take i s @ pat @ drop (i + length pat) s"
proof (induction s arbitrary: i)
  case Nil
  then show ?case by (simp split: if_splits)
next
  case (Cons c cs)
  show ?case
  proof (cases "prefix pat (c # cs)")
    case True
    with Cons.prems have "i = 0" by simp
    with True show ?thesis by (auto simp: prefix_def)
  next
    case False
    with Cons.prems obtain j where j: "indexOf pat cs = Some j" "i = Suc j"
      by auto
    from Cons.IH [OF j(1)] j(2) show ?thesis by simp
  qed
qed

lemma js_split_not_Nil: "js_split sep s \<noteq> []"
  by (induction sep s rule: js_split.induct) (auto simp: Let_def)

lemma js_split_no_match:
  "sep \<noteq> [] \<Longrightarrow> indexOf sep s = None \<Longrightarrow> js_split sep s = [s]"
  by (induction s) (auto simp: Let_def split: if_splits)

lemma js_split_match:
  "sep \<noteq> [] \<Longrightarrow> indexOf sep s = Some i \<Longrightarrow>
   js_split sep s = take i s # js_split sep (drop (i + length sep) s)"
proof (induction s arbitrary: i)
  case Nil
  then show ?case by simp
next
  case (Cons c cs)
  show ?case
  proof (cases "prefix sep (c # cs)")
    case True
    with Cons.prems show ?thesis by simp
  next
    case False
    with Cons.prems obtain j where j: "indexOf sep cs = Some j" "i = Suc j"
      by auto
    from Cons.IH [OF Cons.prems(1) j(1)] j(2) False show ?thesis
      by (simp add: Let_def)
  qed
qed

lemma gulp_replace_no_match:
  "sep \<noteq> [] \<Longrightarrow> indexOf sep s = None \<Longrightarrow> gulp_replace sep rep s = s"
  by (simp add: gulp_replace_def js_split_no_match)

lemma js_join_Cons: "chunks \<noteq> [] \<Longrightarrow> js_join rep (x # chunks) = x @ rep @ js_join rep chunks"
  by (cases chunks) auto

lemma gulp_replace_match:
  "sep \<noteq> [] \<Longrightarrow> indexOf sep s = Some i \<Longrightarrow>
   gulp_replace sep rep s = take i s @ rep @ gulp_replace sep rep (drop (i + length sep) s)"
  by (simp add: gulp_replace_def js_split_match js_join_Cons js_split_not_Nil)

lemma replaced_count_zero:
  "sep \<noteq> [] \<Longrightarrow> (replaced_count sep s = 0) = (indexOf sep s = None)"
  by (cases "indexOf sep s")
     (auto simp: replaced_count_def js_split_no_match js_split_match js_split_not_Nil)

lemma replaced_count_match:
  "sep \<noteq> [] \<Longrightarrow> indexOf sep s = Some i \<Longrightarrow>
   replaced_count sep s = Suc (replaced_count sep (drop (i + length sep) s))"
  using js_split_not_Nil [of sep "drop (i + length sep) s"]
  by (cases "js_split sep (drop (i + length sep) s)")
     (auto simp: replaced_count_def js_split_match)

lemma replaced_count_one:
  assumes "sep \<noteq> []" "replaced_count sep s = 1"
  shows "\<exists>pre post. s = pre @ sep @ post \<and> gulp_replace sep rep s = pre @ rep @ post"
proof -
  from assms obtain i where i: "indexOf sep s = Some i"
    by (cases "indexOf sep s") (auto simp: replaced_count_zero [symmetric])
  with assms have "replaced_count sep (drop (i + length sep) s) = 0"
    by (simp add: replaced_count_match)
  with assms have "indexOf sep (drop (i + length sep) s) = None"
    by (simp add: replaced_count_zero)
  with assms i have "gulp_replace sep rep s = take i s @ rep @ drop (i + length sep) s"
    by (simp add: gulp_replace_match gulp_replace_no_match)
  with indexOf_Some_decomp [OF i] show ?thesis by blast
qed

lemma gulp_replace_two_occurrences:
  "gulp_replace placeholder ''1.2.3'' ''0.0.0-dev and 0.0.0-dev'' = ''1.2.3 and 1.2.3'' \<and>
   replaced_count placeholder ''0.0.0-dev and 0.0.0-dev'' = 2"
  by (simp add: gulp_replace_def replaced_count_def placeholder_def)

section \<open>Properties of the task graph\<close>

text \<open>
  \<^verbatim>\<open>process.exit\<close> is only ever called with a code that is not zero, so the exit
  code of a run is zero exactly when the task completed.
\<close>

lemma exec_Exited_nonzero:
  "snd (exec e t) = Exited n \<Longrightarrow> n \<noteq> 0"
  "snd (exec_series e ts) = Exited n \<Longrightarrow> n \<noteq> 0"
proof (induction e t and e ts rule: exec_exec_series.induct)
  case (1 e a)
  then show ?case by (cases a) (auto simp: Let_def split: if_splits)
next
  case (2 e ts)
  then show ?case by simp
next
  case (3 e)
  then show ?case by simp
next
  case (4 e t ts)
  then show ?case
    by (auto simp: Let_def split: prod.splits if_splits)
qed

lemma exit_code_failed: "(exit_code (snd (exec e t)) \<noteq> 0) = failed e t"
  using exec_Exited_nonzero(1) [of e t]
  by (cases "snd (exec e t)") (auto simp: failed_def)

lemma exec_series_single: "exec_series e [t] = exec e t"
  by (simp add: Let_def split: prod.splits)

lemma exec_series_Cons:
  "exec_series e (t # t' # ts) =
     (if failed e t then exec e t
      else (fst (exec e t) @ fst (exec_series e (t' # ts)), snd (exec_series e (t' # ts))))"
  by (simp add: failed_def Let_def split: prod.splits)

lemma engines_append: "engines (l @ l') = engines l @ engines l'"
  by (induction l rule: engines.induct) auto

lemma exec_run_browser_test:
  "exec e run_browser_test = ([(Karma ''firefox'', run_action e (Karma ''firefox''))], run_action e (Karma ''firefox''))"
  by (simp add: run_browser_test_def run_browser_test_firefox_def Let_def)

lemma engines_all_task: "engines (fst (exec e all_task)) = []"
  by (simp add: task_defs Let_def split: prod.splits)

lemma engines_test_nodejs: "engines (fst (exec e test_nodejs)) = []"
  by (simp add: task_defs Let_def split: prod.splits)

lemma engines_ts: "engines (fst (exec e run_ts_declaration_tests)) = []"
  by (simp add: task_defs)

lemma exec_test_browser:
  "exec e test_browser =
     (if failed e all_task then exec e all_task
      else (fst (exec e all_task) @ fst (exec e run_browser_test), snd (exec e run_browser_test)))"
  unfolding test_browser_def
  by (simp add: exec_series_Cons exec_series_single del: exec_series.simps(2))

lemma exec_test:
  "exec e test =
     (if failed e run_ts_declaration_tests then exec e run_ts_declaration_tests
      else if failed e test_nodejs
      then (fst (exec e run_ts_declaration_tests) @ fst (exec e test_nodejs), snd (exec e test_nodejs))
      else (fst (exec e run_ts_declaration_tests) @ fst (exec e test_nodejs) @ fst (exec e test_browser),
            snd (exec e test_browser)))"
  unfolding test_def
  by (simp add: exec_series_Cons exec_series_single del: exec_series.simps(2))

lemma exec_test_nodejs_install_fails:
  "install_exit e \<noteq> 0 \<Longrightarrow>
   exec e test_nodejs =
     (if babel_error e then ([(Babel_nodejs, Errored)], Errored)
      else ([(Babel_nodejs, Completed), (Npm_install_sandbox, Errored)], Errored))"
  by (simp add: test_nodejs_def install_driver_into_sandbox_def nodejs_def)

section \<open>The require transform\<close>

text \<open>
  When the only occurrence of \<^verbatim>\<open>/node\<close> in a reference is the one at its end, the
  transform replaces that suffix by \<^verbatim>\<open>/browser\<close> and keeps what stands before it;
  a second pass then changes nothing.
\<close>

lemma transform_single_occurrence:
  assumes "indexOf ''/node'' (pre @ ''/node'') = Some (length pre)"
  shows "transformedRequireArg (pre @ ''/node'') = pre @ ''/browser''"
proof -
  have "suffix ''/node'' (pre @ ''/node'')"
    by (rule suffixI [of _ pre]) simp
  with assms show ?thesis
    by (simp add: transformedRequireArg_def endsWithNodeRequire_suffix newRequireArg_def
        js_replace_def nodeRequire_def browserRequire_def)
qed

lemma transformedRequireArg_browser:
  "transformedRequireArg (pre @ ''/browser'') = pre @ ''/browser''"
proof -
  have "\<not> suffix ''/node'' (pre @ ''/browser'')"
  proof
    assume "suffix ''/node'' (pre @ ''/browser'')"
    then obtain zs where "pre @ ''/browser'' = zs @ ''/node''"
      by (auto simp: suffix_def)
    then have "last (pre @ ''/browser'') = last (zs @ ''/node'')"
      by simp
    then show False by simp
  qed
  then show ?thesis
    by (simp add: transformedRequireArg_unchanged)
qed

lemma transform_single_occurrence_idempotent:
  assumes "indexOf ''/node'' (pre @ ''/node'') = Some (length pre)"
  shows "transformedRequireArg (transformedRequireArg (pre @ ''/node'')) =
         transformedRequireArg (pre @ ''/node'')"
  by (simp add: transform_single_occurrence [OF assms] transformedRequireArg_browser)

lemma transform_relative_node:
  "transformedRequireArg ''./node'' = ''./browser'' \<and>
   requireTransform ''./node'' =
     Some (''require('' @ [CHR 0x27] @ ''./browser'' @ [CHR 0x27] @ '')'')"
  by (simp add: transform_defs)

text \<open>
  Claim C1. A reference that ends with \<^verbatim>\<open>/node\<close> should come out ending with
  \<^verbatim>\<open>/browser\<close> and unchanged before that suffix. The transform tests the end of
  the reference but then replaces the first occurrence of \<^verbatim>\<open>/node\<close>, wherever it
  stands. On \<^verbatim>\<open>require('../node_modules/lib/node')\<close> it rewrites the directory name:
  the reference that comes out still ends with \<^verbatim>\<open>/node\<close>, does not end with
  \<^verbatim>\<open>/browser\<close>, and no longer starts with \<^verbatim>\<open>../node_modules/lib\<close>.
\<close>

theorem transform_rewrites_first_occurrence:
  "endsWithNodeRequire ''../node_modules/lib/node'' \<and>
   transformedRequireArg ''../node_modules/lib/node'' = ''../browser_modules/lib/node'' \<and>
   requireTransform ''../node_modules/lib/node'' =
     Some (''require('' @ [CHR 0x27] @ ''../browser_modules/lib/node'' @ [CHR 0x27] @ '')'') \<and>
   \<not> suffix browserRequire (transformedRequireArg ''../node_modules/lib/node'') \<and>
   \<not> prefix ''../node_modules/lib'' (transformedRequireArg ''../node_modules/lib/node'')"
  by (simp add: transform_defs suffix_def)

text \<open>
  Claim C2. Transforming twice should give what transforming once gives. On the
  same reference the first pass leaves a reference that still ends with
  \<^verbatim>\<open>/node\<close>, so a second pass rewrites it again and the two results differ.
\<close>

theorem transform_twice_differs:
  "transformedRequireArg ''../node_modules/lib/node'' = ''../browser_modules/lib/node'' \<and>
   transformedRequireArg (transformedRequireArg ''../node_modules/lib/node'') =
     ''../browser_modules/lib/browser'' \<and>
   transformedRequireArg (transformedRequireArg ''../node_modules/lib/node'') \<noteq>
     transformedRequireArg ''../node_modules/lib/node''"
  by (simp add: transform_defs)

section \<open>Setting the version\<close>

text \<open>
  Claim C3. For a version string that semver does not accept, the task throws an
  error whose message quotes the string, gulp exits with a code that is not zero,
  and every file is as it was before.
\<close>

theorem set_task_invalid_version:
  assumes "\<not> semver_valid version"
  shows "set_task semver_valid version files =
           (Inl (Error (''Invalid version '' @ [CHR 0x22] @ version @ [CHR 0x22])), files) \<and>
         exit_code (task_outcome (fst (set_task semver_valid version files))) \<noteq> 0"
  using assms by (simp add: set_task_def task_outcome_def)

text \<open>
  The theorem at the version string \<^verbatim>\<open>not-a-version\<close>.
\<close>

theorem set_task_invalid_version_witness:
  "\<not> semver_sample ''not-a-version'' \<and>
   set_task semver_sample ''not-a-version'' tree_fresh =
     (Inl (Error (''Invalid version '' @ [CHR 0x22] @ ''not-a-version'' @ [CHR 0x22])), tree_fresh) \<and>
   exit_code (task_outcome (fst (set_task semver_sample ''not-a-version'' tree_fresh))) = 1"
proof -
  have h: "\<not> semver_sample ''not-a-version''"
    by (simp add: semver_sample_def)
  from set_task_invalid_version [of semver_sample "''not-a-version''" tree_fresh, OF h] h show ?thesis
    by (simp add: task_outcome_def)
qed

text \<open>
  Claim C4 says that for every valid version the task rewrites exactly one
  occurrence of the placeholder in \<^verbatim>\<open>src/version.js\<close>. The number of occurrences
  that are rewritten is the number that the file holds: on a tree whose version
  file has been stamped before, the task succeeds with a valid version and
  rewrites none.
\<close>

theorem set_task_stamped_tree_counterexample:
  "semver_sample ''1.2.4'' \<and>
   tree_stamped versionFile = Some ''export default 1.2.3'' \<and>
   replaced_count placeholder ''export default 1.2.3'' = 0 \<and>
   set_task semver_sample ''1.2.4'' tree_stamped = (Inr (), tree_stamped)"
  by (simp add: set_task_def semver_sample_def tree_stamped_def versionFile_def path_join_def
      gulp_replace_def replaced_count_def placeholder_def)

text \<open>
  Claim C4, amended. For a valid version and a tree that holds
  \<^verbatim>\<open>src/version.js\<close>, the task succeeds, the new contents of the version file are
  the old ones with every occurrence of the placeholder \<^verbatim>\<open>0.0.0-dev\<close> replaced by
  the version (the first occurrence is replaced and the text behind it is treated
  in the same way; without an occurrence no file changes; with exactly one
  occurrence exactly that one is replaced), and every other file is as it was.
\<close>

theorem set_task_valid_version:
  assumes "semver_valid version" and "files versionFile = Some contents"
  shows "fst (set_task semver_valid version files) = Inr () \<and>
         snd (set_task semver_valid version files) versionFile =
           Some (gulp_replace placeholder version contents) \<and>
         (\<forall>path. path \<noteq> versionFile \<longrightarrow>
            snd (set_task semver_valid version files) path = files path) \<and>
         (\<forall>i. indexOf placeholder contents = Some i \<longrightarrow>
            gulp_replace placeholder version contents =
              take i contents @ version @
              gulp_replace placeholder version (drop (i + length placeholder) contents)) \<and>
         (indexOf placeholder contents = None \<longrightarrow>
            snd (set_task semver_valid version files) = files) \<and>
         (replaced_count placeholder contents = 1 \<longrightarrow>
            (\<exists>pre post. contents = pre @ placeholder @ post \<and>
               gulp_replace placeholder version contents = pre @ version @ post))"
proof -
  have ne: "placeholder \<noteq> []"
    by (simp add: placeholder_def)
  have run: "set_task semver_valid version files =
      (Inr (), files(versionFile \<mapsto> gulp_replace placeholder version contents))"
    using assms by (simp add: set_task_def)
  have c1: "fst (set_task semver_valid version files) = Inr ()"
    by (simp add: run)
  have c2: "snd (set_task semver_valid version files) versionFile =
      Some (gulp_replace placeholder version contents)"
    by (simp add: run)
  have c3: "\<forall>path. path \<noteq> versionFile \<longrightarrow>
      snd (set_task semver_valid version files) path = files path"
    by (simp add: run)
  have c4: "\<forall>i. indexOf placeholder contents = Some i \<longrightarrow>
      gulp_replace placeholder version contents =
        take i contents @ version @
        gulp_replace placeholder version (drop (i + length placeholder) contents)"
    using gulp_replace_match [OF ne] by blast
  have c5: "indexOf placeholder contents = None \<longrightarrow>
      snd (set_task semver_valid version files) = files"
  proof
    assume "indexOf placeholder contents = None"
    then have "gulp_replace placeholder version contents = contents"
      by (rule gulp_replace_no_match [OF ne])
    with assms(2) show "snd (set_task semver_valid version files) = files"
      by (simp add: run fun_upd_idem_iff)
  qed
  have c6: "replaced_count placeholder contents = 1 \<longrightarrow>
      (\<exists>pre post. contents = pre @ placeholder @ post \<and>
         gulp_replace placeholder version contents = pre @ version @ post)"
    using replaced_count_one [OF ne] by blast
  from c1 c2 c3 c4 c5 c6 show ?thesis
    by blast
qed

text \<open>
  The theorem at version \<^verbatim>\<open>1.2.3\<close> on the tree whose version file holds the
  placeholder once.
\<close>

theorem set_task_valid_version_witness:
  "semver_sample ''1.2.3'' \<and>
   tree_fresh versionFile = Some ''export default 0.0.0-dev'' \<and>
   replaced_count placeholder ''export default 0.0.0-dev'' = 1 \<and>
   fst (set_task semver_sample ''1.2.3'' tree_fresh) = Inr () \<and>
   snd (set_task semver_sample ''1.2.3'' tree_fresh) versionFile = Some ''export default 1.2.3'' \<and>
   snd (set_task semver_sample ''1.2.3'' tree_fresh) ''package.json'' = tree_fresh ''package.json''"
proof -
  have h1: "semver_sample ''1.2.3''"
    by (simp add: semver_sample_def)
  have h2: "tree_fresh versionFile = Some ''export default 0.0.0-dev''"
    by (simp add: tree_fresh_def)
  have h3: "replaced_count placeholder ''export default 0.0.0-dev'' = 1"
    by (simp add: replaced_count_def placeholder_def)
  have h4: "gulp_replace placeholder ''1.2.3'' ''export default 0.0.0-dev'' = ''export default 1.2.3''"
    by (simp add: gulp_replace_def placeholder_def)
  have h5: "''package.json'' \<noteq> versionFile"
    by (simp add: versionFile_def path_join_def)
  note t = set_task_valid_version
    [of semver_sample "''1.2.3''" tree_fresh "''export default 0.0.0-dev''", OF h1 h2]
  from t have r1: "fst (set_task semver_sample ''1.2.3'' tree_fresh) = Inr ()"
    by (rule conjunct1)
  from t have r2: "snd (set_task semver_sample ''1.2.3'' tree_fresh) versionFile =
      Some (gulp_replace placeholder ''1.2.3'' ''export default 0.0.0-dev'')"
    by blast
  from t h5 have r3: "snd (set_task semver_sample ''1.2.3'' tree_fresh) ''package.json'' =
      tree_fresh ''package.json''"
    by blast
  from h1 h2 h3 r1 r2 r3 show ?thesis
    by (simp only: h4 simp_thms)
qed

section \<open>Running the tests\<close>

text \<open>
  Claim C5. When the install command of the sandbox exits with a code that is
  not zero, the function that runs jasmine on the node test suite is not started
  in that run, whether \<^verbatim>\<open>test-nodejs\<close> is run by itself, by \<^verbatim>\<open>test\<close> or by
  \<^verbatim>\<open>default\<close>, and \<^verbatim>\<open>test-nodejs\<close> fails.
\<close>

theorem install_failure_skips_jasmine:
  assumes "install_exit e \<noteq> 0"
  shows "Jasmine_nodejs \<notin> fst ` set (fst (exec e test_nodejs)) \<and>
         Jasmine_nodejs \<notin> fst ` set (fst (exec e test)) \<and>
         Jasmine_nodejs \<notin> fst ` set (fst (exec e default_task)) \<and>
         failed e test_nodejs"
proof -
  have n: "Jasmine_nodejs \<notin> fst ` set (fst (exec e test_nodejs))" "failed e test_nodejs"
    by (simp_all add: exec_test_nodejs_install_fails [OF assms] failed_def)
  have ts: "Jasmine_nodejs \<notin> fst ` set (fst (exec e run_ts_declaration_tests))"
    by (simp add: run_ts_declaration_tests_def)
  from n ts have t: "Jasmine_nodejs \<notin> fst ` set (fst (exec e test))"
    by (auto simp: exec_test)
  have "exec e default_task = exec e test"
    by (simp add: default_task_def exec_series_single del: exec_series.simps(2))
  with n t show ?thesis by simp
qed

text \<open>
  The theorem at a run in which only the install command fails.
\<close>

theorem install_failure_skips_jasmine_witness:
  "install_exit tools_install_fails \<noteq> 0 \<and>
   fst (exec tools_install_fails test_nodejs) =
     [(Babel_nodejs, Completed), (Npm_install_sandbox, Errored)] \<and>
   Jasmine_nodejs \<notin> fst ` set (fst (exec tools_install_fails test)) \<and>
   failed tools_install_fails test_nodejs"
proof -
  have h: "install_exit tools_install_fails \<noteq> 0"
    by (simp add: tools_defs)
  have l: "fst (exec tools_install_fails test_nodejs) =
      [(Babel_nodejs, Completed), (Npm_install_sandbox, Errored)]"
    by (simp add: tools_defs task_defs)
  from install_failure_skips_jasmine [OF h] h l show ?thesis
    by blast
qed

text \<open>
  Claim C6. When karma reports a failure for firefox (an exit code that is not
  zero, as for a bundle with a failing assertion), \<^verbatim>\<open>run-browser-test-firefox\<close>
  ends the process with that code, and the log of the run holds the entry of the
  firefox engine marked with that exit; when karma reports zero (every assertion
  passed) the task completes and the exit code is zero.
\<close>

theorem run_browser_test_firefox_exit:
  "(karma_exit e ''firefox'' \<noteq> 0 \<longrightarrow>
      exec e run_browser_test_firefox =
        ([(Karma ''firefox'', Exited (karma_exit e ''firefox''))],
         Exited (karma_exit e ''firefox'')) \<and>
      exit_code (snd (exec e run_browser_test_firefox)) \<noteq> 0) \<and>
   (karma_exit e ''firefox'' = 0 \<longrightarrow>
      exec e run_browser_test_firefox = ([(Karma ''firefox'', Completed)], Completed) \<and>
      exit_code (snd (exec e run_browser_test_firefox)) = 0)"
  by (simp add: run_browser_test_firefox_def Let_def)

text \<open>
  The theorem at a run in which firefox fails and at a run in which it passes.
\<close>

theorem run_browser_test_firefox_exit_witness:
  "karma_exit tools_firefox_fails ''firefox'' = 1 \<and>
   exec tools_firefox_fails run_browser_test_firefox =
     ([(Karma ''firefox'', Exited 1)], Exited 1) \<and>
   exit_code (snd (exec tools_firefox_fails run_browser_test_firefox)) = 1 \<and>
   karma_exit tools_pass ''firefox'' = 0 \<and>
   exec tools_pass run_browser_test_firefox = ([(Karma ''firefox'', Completed)], Completed) \<and>
   exit_code (snd (exec tools_pass run_browser_test_firefox)) = 0"
proof -
  have f: "karma_exit tools_firefox_fails ''firefox'' = 1"
    by (simp add: tools_defs)
  have p: "karma_exit tools_pass ''firefox'' = 0"
    by (simp add: tools_defs)
  from run_browser_test_firefox_exit [of tools_firefox_fails] f
  have a: "exec tools_firefox_fails run_browser_test_firefox =
      ([(Karma ''firefox'', Exited 1)], Exited 1)"
    by simp
  from run_browser_test_firefox_exit [of tools_pass] p
  have b: "exec tools_pass run_browser_test_firefox = ([(Karma ''firefox'', Completed)], Completed)"
    by simp
  from f p a b show ?thesis by simp
qed




text \<open>
  Claim C9 says that the declaration checker may run in parallel with the build
  chain and that no order is imposed between independent builder and checker
  tasks. In \<^verbatim>\<open>test\<close> the checker is the first member of a series: when it reports
  a diagnostic no builder is started at all, although the build chain \<^verbatim>\<open>all\<close> would
  complete in the same run, and when it passes its entry closes before the first
  builder starts.
\<close>

theorem test_blocks_build_counterexample:
  "exec tools_ts_fails test = ([(Typescript_check, Exited 1)], Exited 1) \<and>
   exec tools_ts_fails all_task =
     ([(Babel_nodejs, Completed), (Bundle_browser_test, Completed),
       (Bundle_browser, Completed)], Completed) \<and>
   fst (exec tools_pass test) =
     [(Typescript_check, Completed), (Babel_nodejs, Completed),
      (Npm_install_sandbox, Completed), (Jasmine_nodejs, Completed),
      (Babel_nodejs, Completed), (Bundle_browser_test, Completed),
      (Bundle_browser, Completed), (Karma ''firefox'', Completed)]"
  by (simp add: tools_defs task_defs)

text \<open>
  Claim C9, amended. The tasks are composed with \<^verbatim>\<open>gulp.series\<close> only. In every
  run of \<^verbatim>\<open>test\<close> the declaration checker is started first and alone; the rest of
  the series, which holds every builder, starts only once the checker has
  completed without a diagnostic, and never starts the checker again.
\<close>

theorem test_checker_before_build:
  "fst (exec e test) =
     (Typescript_check, run_action e Typescript_check) #
     (if ts_error e then [] else fst (exec_series e [test_nodejs, test_browser])) \<and>
   Typescript_check \<notin> fst ` set (fst (exec_series e [test_nodejs, test_browser]))"
proof -
  have a: "fst (exec e test) =
     (Typescript_check, run_action e Typescript_check) #
     (if ts_error e then [] else fst (exec_series e [test_nodejs, test_browser]))"
    unfolding test_def
    by (simp add: exec_series_Cons failed_def run_ts_declaration_tests_def
        del: exec_series.simps(2))
  have n: "Typescript_check \<notin> fst ` set (fst (exec e test_nodejs))"
    by (simp add: test_nodejs_def install_driver_into_sandbox_def nodejs_def)
  have b: "Typescript_check \<notin> fst ` set (fst (exec e test_browser))"
    by (simp add: test_browser_def all_task_def browser_def nodejs_def
          build_browser_test_def build_browser_def run_browser_test_def
          run_browser_test_firefox_def Let_def)
  from n b have "Typescript_check \<notin> fst ` set (fst (exec_series e [test_nodejs, test_browser]))"
    by (auto simp: exec_series_Cons exec_series_single simp del: exec_series.simps(2))
  with a show ?thesis by blast
qed

text \<open>
  The theorem at a run in which all pass and at a run in which the checker fails.
\<close>

theorem test_checker_before_build_witness:
  "fst (exec tools_pass test) =
     (Typescript_check, Completed) # fst (exec_series tools_pass [test_nodejs, test_browser]) \<and>
   fst (exec tools_ts_fails test) = [(Typescript_check, Exited 1)]"
proof -
  have p: "\<not> ts_error tools_pass" "run_action tools_pass Typescript_check = Completed"
    by (simp_all add: tools_defs)
  have f: "ts_error tools_ts_fails" "run_action tools_ts_fails Typescript_check = Exited 1"
    by (simp_all add: tools_defs)
  from test_checker_before_build [of tools_pass] p
  have a: "fst (exec tools_pass test) =
     (Typescript_check, Completed) # fst (exec_series tools_pass [test_nodejs, test_browser])"
    by (simp del: exec_series.simps)
  from test_checker_before_build [of tools_ts_fails] f
  have b: "fst (exec tools_ts_fails test) = [(Typescript_check, Exited 1)]"
    by (simp del: exec_series.simps)
  from a b show ?thesis by blast
qed

text \<open>
  Claim C10. \<^verbatim>\<open>run-browser-test\<close> starts karma once, for firefox, whatever the
  tools do; \<^verbatim>\<open>test-browser\<close> and \<^verbatim>\<open>test\<close> start firefox and no other engine, once
  the tasks before \<^verbatim>\<open>run-browser-test\<close> have completed. The tasks for chrome, edge
  and ie are declared, and only they run those engines.
\<close>

theorem run_browser_test_firefox_only:
  "fst (exec e run_browser_test) = [(Karma ''firefox'', run_action e (Karma ''firefox''))] \<and>
   engines (fst (exec e run_browser_test)) = [''firefox''] \<and>
   engines (fst (exec e test_browser)) = (if failed e all_task then [] else [''firefox'']) \<and>
   engines (fst (exec e test)) =
     (if failed e run_ts_declaration_tests \<or> failed e test_nodejs \<or> failed e all_task
      then [] else [''firefox'']) \<and>
   gulp_task ''run-browser-test'' = Some (Series [Fn (Karma ''firefox'')]) \<and>
   gulp_task ''run-browser-test-chrome'' = Some (Fn (Karma ''chrome'')) \<and>
   gulp_task ''run-browser-test-edge'' = Some (Fn (Karma ''edge'')) \<and>
   gulp_task ''run-browser-test-ie'' = Some (Fn (Karma ''ie''))"
proof -
  have a: "fst (exec e run_browser_test) = [(Karma ''firefox'', run_action e (Karma ''firefox''))]"
    by (simp add: exec_run_browser_test)
  then have b: "engines (fst (exec e run_browser_test)) = [''firefox'']"
    by simp
  from b have c: "engines (fst (exec e test_browser)) =
      (if failed e all_task then [] else [''firefox''])"
    by (simp add: exec_test_browser engines_append engines_all_task)
  from c have d: "engines (fst (exec e test)) =
     (if failed e run_ts_declaration_tests \<or> failed e test_nodejs \<or> failed e all_task
      then [] else [''firefox''])"
    by (simp add: exec_test engines_append engines_ts engines_test_nodejs)
  have g: "gulp_task ''run-browser-test'' = Some (Series [Fn (Karma ''firefox'')])"
    "gulp_task ''run-browser-test-chrome'' = Some (Fn (Karma ''chrome''))"
    "gulp_task ''run-browser-test-edge'' = Some (Fn (Karma ''edge''))"
    "gulp_task ''run-browser-test-ie'' = Some (Fn (Karma ''ie''))"
    by (simp_all add: gulp_task_def run_browser_test_def run_browser_test_firefox_def
        run_browser_test_chrome_def run_browser_test_edge_def run_browser_test_ie_def)
  from a b c d g show ?thesis by blast
qed

text \<open>
  The theorem at a run in which all pass and at a run in which the checker fails.
\<close>

theorem run_browser_test_firefox_only_witness:
  "\<not> failed tools_pass all_task \<and>
   engines (fst (exec tools_pass test_browser)) = [''firefox''] \<and>
   engines (fst (exec tools_pass test)) = [''firefox''] \<and>
   engines (fst (exec tools_ts_fails test)) = []"
proof -
  have p: "\<not> failed tools_pass all_task" "\<not> failed tools_pass run_ts_declaration_tests"
    "\<not> failed tools_pass test_nodejs"
    by (simp_all add: failed_def tools_defs task_defs)
  have f: "failed tools_ts_fails run_ts_declaration_tests"
    by (simp add: failed_def tools_defs task_defs)
  from run_browser_test_firefox_only [of tools_pass] p
  have a: "engines (fst (exec tools_pass test_browser)) = [''firefox'']"
    "engines (fst (exec tools_pass test)) = [''firefox'']"
    by simp_all
  from run_browser_test_firefox_only [of tools_ts_fails] f
  have b: "engines (fst (exec tools_ts_fails test)) = []"
    by simp
  from p a b show ?thesis by blast
qed

end
